theory Spec2Isabelle
  imports Complex_Main
begin

section \<open>Values of the host language\<close>

text \<open>
  The wrapper class \<^verbatim>\<open>Simulation\<close> of \<^verbatim>\<open>pyssa/simulation.py\<close> validates a reaction
  network at construction and then runs replicates of the engine \<^verbatim>\<open>direct_naive\<close>.
  Every \<^verbatim>\<open>raise\<close> of the file raises a \<^verbatim>\<open>ValueError\<close>; the message is kept, since
  it tells which check fired. \<^verbatim>\<open>IndexError\<close> is what a list index out of range raises.
\<close>

datatype error = ValueError string | IndexError

text \<open>
  A two-dimensional array carries its shape and its rows. The arrays of the tests are
  built by \<^verbatim>\<open>np.array\<close> from Python integers, which gives 64-bit signed entries. An
  entry is modelled as an integer, and the arithmetic of the array (the row sums below)
  wraps around at 64 bits, as numpy's does, silently. A one-dimensional array is a
  list, and its \<^verbatim>\<open>shape[0]\<close> is the length of the list.
\<close>

record ndarray2 =
  shape0 :: nat
  shape1 :: nat
  rows :: "int list list"


text \<open>\<^verbatim>\<open>np.array(rs)\<close> of a non-empty list of rows of one length, and \<^verbatim>\<open>np.zeros((0, n))\<close>.\<close>

definition np_array2 :: "int list list \<Rightarrow> ndarray2" where
  "np_array2 rs = \<lparr>shape0 = length rs, shape1 = length (hd rs), rows = rs\<rparr>"


text \<open>\<^verbatim>\<open>np.any(a < 0)\<close> on a two-dimensional and on a one-dimensional array.\<close>

definition np_any_neg2 :: "ndarray2 \<Rightarrow> bool" where
  "np_any_neg2 a = list_ex (list_ex (\<lambda>x. x < 0)) (rows a)"

definition np_any_neg :: "'a::{zero,ord} list \<Rightarrow> bool" where
  "np_any_neg xs = list_ex (\<lambda>x. x < 0) xs"


definition wrap_int64 :: "int \<Rightarrow> int" where
  "wrap_int64 k = (k + 2 ^ 63) mod 2 ^ 64 - 2 ^ 63"

text \<open>
  \<^verbatim>\<open>np.sum(a, 1)\<close>: the sum of every row, accumulated in the type of the entries. Every
  addition wraps, so the result is the exact sum wrapped once.
\<close>

definition np_sum_axis1 :: "ndarray2 \<Rightarrow> int list" where
  "np_sum_axis1 a = map (\<lambda>row. wrap_int64 (sum_list row)) (rows a)"

text \<open>
  \<^verbatim>\<open>np.max(xs)\<close>: the largest entry; numpy raises a \<^verbatim>\<open>ValueError\<close> on an array of
  size zero, since the maximum has no identity.
\<close>

definition zero_size_msg :: string where
  "zero_size_msg = ''zero-size array to reduction operation maximum which has no identity''"

definition np_max :: "int list \<Rightarrow> error + int" where
  "np_max xs = (case xs of [] \<Rightarrow> Inl (ValueError zero_size_msg) | x # rest \<Rightarrow> Inr (fold max rest x))"

text \<open>
  The parameter \<^verbatim>\<open>chem_flag\<close> is annotated \<^verbatim>\<open>bool\<close>, and Python checks no annotation:
  the caller can pass any value. \<^verbatim>\<open>x in (True, False)\<close> compares \<^verbatim>\<open>x\<close> with both
  members by \<^verbatim>\<open>==\<close>, and \<^verbatim>\<open>bool\<close> is a numeric type: \<^verbatim>\<open>True == 1 == 1.0\<close> and
  \<^verbatim>\<open>False == 0 == 0.0\<close>.
\<close>

datatype pyval = PyBool bool | PyInt int | PyFloat real | PyStr string | PyNone

fun py_num :: "pyval \<Rightarrow> real option" where
  "py_num (PyBool b) = Some (if b then 1 else 0)"
| "py_num (PyInt i) = Some (of_int i)"
| "py_num (PyFloat r) = Some r"
| "py_num (PyStr s) = None"
| "py_num PyNone = None"

definition py_eq :: "pyval \<Rightarrow> pyval \<Rightarrow> bool" where
  "py_eq a b = (case (py_num a, py_num b) of (Some x, Some y) \<Rightarrow> x = y | _ \<Rightarrow> a = b)"

definition py_in :: "pyval \<Rightarrow> pyval list \<Rightarrow> bool" where
  "py_in x ys = list_ex (\<lambda>y. py_eq x y) ys"

section \<open>The simulation object\<close>

text \<open>
  \<^verbatim>\<open>Results(tlist, xlist, status_list, algorithm, seed)\<close>: the container \<^verbatim>\<open>simulate\<close>
  stores. The engine's results are kept as the engine returns them, so their types
  are parameters.
\<close>

record ('t, 'x, 's) Results =
  t_list :: "'t list"
  x_list :: "'x list"
  status_list :: "'s list"
  res_algorithm :: string
  res_seed :: "int list"

record ('t, 'x, 's) Simulation =
  self_react_stoic :: ndarray2
  self_prod_stoic :: ndarray2
  self_init_state :: "int list"
  self_k_det :: "real list"
  self_chem_flag :: pyval
  self_nr :: nat
  self_ns :: nat
  self_volume :: real
  self_orders :: "int list"
  self_results :: "('t, 'x, 's) Results option"

text \<open>\<^verbatim>\<open>Simulation._check_consistency\<close>: eight checks in the order of the source.\<close>

definition check_consistency :: "('t, 'x, 's) Simulation \<Rightarrow> error + unit" where
  "check_consistency self =
    (if self_nr self \<noteq> shape0 (self_prod_stoic self) \<or> self_ns self \<noteq> shape1 (self_prod_stoic self)
     then Inl (ValueError ''react_stoic and prod_stoic should be the same shape.'')
     else if np_any_neg2 (self_react_stoic self)
     then Inl (ValueError ''react_stoic cannot have negative elements.'')
     else if np_any_neg2 (self_prod_stoic self)
     then Inl (ValueError ''V_p cannot have negative elements.'')
     else if np_any_neg (self_init_state self)
     then Inl (ValueError ''Initial numbers in X0 can't be negative.'')
     else if np_any_neg (self_k_det self)
     then Inl (ValueError ''Rate constant(s) can't be negative.'')
     else if length (self_k_det self) \<noteq> self_nr self
     then Inl (ValueError ''Number of rate constants must equal number of reactions'')
     else if \<not> py_in (self_chem_flag self) [PyBool True, PyBool False]
     then Inl (ValueError ''chem_flag must be a boolean True or False.'')
     else (case np_max (self_orders self) of
             Inl e \<Rightarrow> Inl e
           | Inr m \<Rightarrow> if m > 3 then Inl (ValueError ''Order greater than 3 not suppported.'')
                      else Inr ()))"

text \<open>
  \<^verbatim>\<open>Simulation.__init__\<close> stores its arguments, derives the shape and the orders, and
  then checks. \<open>init_fields\<close> is the object after the assignments; the class attribute
  \<^verbatim>\<open>_results = None\<close> is what a new object reads.
\<close>

definition init_fields ::
  "ndarray2 \<Rightarrow> ndarray2 \<Rightarrow> int list \<Rightarrow> real list \<Rightarrow> pyval \<Rightarrow> real \<Rightarrow> ('t, 'x, 's) Simulation" where
  "init_fields react_stoic prod_stoic init_state k_det chem_flag volume =
    \<lparr>self_react_stoic = react_stoic,
     self_prod_stoic = prod_stoic,
     self_init_state = init_state,
     self_k_det = k_det,
     self_chem_flag = chem_flag,
     self_nr = shape0 react_stoic,
     self_ns = shape1 react_stoic,
     self_volume = volume,
     self_orders = np_sum_axis1 react_stoic,
     self_results = None\<rparr>"

definition Simulation_init ::
  "ndarray2 \<Rightarrow> ndarray2 \<Rightarrow> int list \<Rightarrow> real list \<Rightarrow> pyval \<Rightarrow> real \<Rightarrow> error + ('t, 'x, 's) Simulation" where
  "Simulation_init react_stoic prod_stoic init_state k_det chem_flag volume =
    (let self = init_fields react_stoic prod_stoic init_state k_det chem_flag volume
     in case check_consistency self of Inl e \<Rightarrow> Inl e | Inr u \<Rightarrow> Inr self)"

section \<open>Running replicates\<close>

text \<open>
  The engine \<^verbatim>\<open>direct_naive\<close> is imported from a module of its own. \<^verbatim>\<open>simulate\<close> calls
  it with nine positional arguments and unpacks three results. The engine draws random
  numbers, so a call may read and change state outside its arguments (the generator):
  the engine is a parameter of the model that takes this state and returns it.
\<close>

record engine_args =
  a_react_stoic :: ndarray2
  a_prod_stoic :: ndarray2
  a_init_state :: "int list"
  a_k_det :: "real list"
  a_max_t :: real
  a_max_iter :: int
  a_volume :: real
  a_seed :: int
  a_chem_flag :: pyval

type_synonym ('t, 'x, 's, 'g) engine = "engine_args \<Rightarrow> 'g \<Rightarrow> ('t \<times> 'x \<times> 's) \<times> 'g"

text \<open>The argument list of the call in \<^verbatim>\<open>simulate\<close>, for the seed \<^verbatim>\<open>seed[index]\<close>.\<close>

definition call_args :: "('t, 'x, 's) Simulation \<Rightarrow> real \<Rightarrow> int \<Rightarrow> real \<Rightarrow> int \<Rightarrow> engine_args" where
  "call_args self max_t max_iter volume sd =
    \<lparr>a_react_stoic = self_react_stoic self,
     a_prod_stoic = self_prod_stoic self,
     a_init_state = self_init_state self,
     a_k_det = self_k_det self,
     a_max_t = max_t,
     a_max_iter = max_iter,
     a_volume = volume,
     a_seed = sd,
     a_chem_flag = self_chem_flag self\<rparr>"

text \<open>
  The locals of the loop (\<^verbatim>\<open>tlist\<close>, \<^verbatim>\<open>xlist\<close>, \<^verbatim>\<open>status_list\<close>), the state outside the
  program, and a log of the engine calls made so far, each with what it returned.
\<close>

record ('t, 'x, 's, 'g) loop_state =
  l_tlist :: "'t list"
  l_xlist :: "'x list"
  l_status_list :: "'s list"
  l_world :: 'g
  l_calls :: "(engine_args \<times> ('t \<times> 'x \<times> 's)) list"

text \<open>
  \<^verbatim>\<open>for index in range(n_rep)\<close>: one engine call per index, the results appended.
  \<^verbatim>\<open>seed[index]\<close> raises \<^verbatim>\<open>IndexError\<close> past the end of the list.
\<close>

fun replicates ::
  "('t, 'x, 's, 'g) engine \<Rightarrow> ('t, 'x, 's) Simulation \<Rightarrow> real \<Rightarrow> int \<Rightarrow> real \<Rightarrow> int list \<Rightarrow>
   nat list \<Rightarrow> ('t, 'x, 's, 'g) loop_state \<Rightarrow> error option \<times> ('t, 'x, 's, 'g) loop_state" where
  "replicates direct_naive self max_t max_iter volume seed [] st = (None, st)"
| "replicates direct_naive self max_t max_iter volume seed (index # rest) st =
    (if index < length seed then
       (case direct_naive (call_args self max_t max_iter volume (seed ! index)) (l_world st) of
          ((t, X, status), g) \<Rightarrow>
            replicates direct_naive self max_t max_iter volume seed rest
              \<lparr>l_tlist = l_tlist st @ [t],
               l_xlist = l_xlist st @ [X],
               l_status_list = l_status_list st @ [status],
               l_world = g,
               l_calls = l_calls st @ [(call_args self max_t max_iter volume (seed ! index), (t, X, status))]\<rparr>)
     else (Some IndexError, st))"

text \<open>What a call of \<^verbatim>\<open>simulate\<close> leaves behind: the exception if one was raised, the
  object, the state outside the program and the engine calls made.\<close>

record ('t, 'x, 's, 'g) outcome =
  raised :: "error option"
  self_after :: "('t, 'x, 's) Simulation"
  world_after :: 'g
  engine_calls :: "(engine_args \<times> ('t \<times> 'x \<times> 's)) list"

text \<open>\<^verbatim>\<open>range(n_rep)\<close> is empty for \<^verbatim>\<open>n_rep \<le> 0\<close>.\<close>

definition py_range :: "int \<Rightarrow> nat list" where
  "py_range n = [0..<nat n]"

text \<open>
  The first statement of \<^verbatim>\<open>simulate\<close>: a supplied seed list is checked against
  \<^verbatim>\<open>n_rep\<close>, a missing one becomes \<^verbatim>\<open>[index for index in range(n_rep)]\<close>. The result is
  the local \<^verbatim>\<open>seed\<close> the loop reads.
\<close>

definition resolve_seed :: "int list option \<Rightarrow> int \<Rightarrow> error + int list" where
  "resolve_seed seed n_rep =
    (case seed of
       Some sd \<Rightarrow> if n_rep \<noteq> int (length sd)
                  then Inl (ValueError ''Seed should be as long as n_rep'')
                  else Inr sd
     | None \<Rightarrow> Inr (map int (py_range n_rep)))"

text \<open>
  \<^verbatim>\<open>Simulation.simulate\<close>. The seed list is checked or defaulted first, then the
  algorithm tag is compared; \<^verbatim>\<open>self._results\<close> is assigned after the loop only.
\<close>

definition simulate ::
  "('t, 'x, 's, 'g) engine \<Rightarrow> ('t, 'x, 's) Simulation \<Rightarrow> real \<Rightarrow> int \<Rightarrow> real \<Rightarrow> int list option \<Rightarrow>
   int \<Rightarrow> string \<Rightarrow> 'g \<Rightarrow> ('t, 'x, 's, 'g) outcome" where
  "simulate direct_naive self max_t max_iter volume seed n_rep algorithm g =
    (case resolve_seed seed n_rep of
       Inl e \<Rightarrow> \<lparr>raised = Some e, self_after = self, world_after = g, engine_calls = []\<rparr>
     | Inr sd \<Rightarrow>
         if algorithm = ''direct_naive'' then
           (case replicates direct_naive self max_t max_iter volume sd (py_range n_rep)
                   \<lparr>l_tlist = [], l_xlist = [], l_status_list = [], l_world = g, l_calls = []\<rparr> of
              (Some e, st) \<Rightarrow>
                \<lparr>raised = Some e, self_after = self, world_after = l_world st, engine_calls = l_calls st\<rparr>
            | (None, st) \<Rightarrow>
                \<lparr>raised = None,
                 self_after = self\<lparr>self_results :=
                   Some \<lparr>t_list = l_tlist st, x_list = l_xlist st, status_list = l_status_list st,
                         res_algorithm = algorithm, res_seed = sd\<rparr>\<rparr>,
                 world_after = l_world st,
                 engine_calls = l_calls st\<rparr>)
         else \<lparr>raised = Some (ValueError ''Requested algorithm not supported''),
               self_after = self, world_after = g, engine_calls = []\<rparr>)"

text \<open>
  The property \<^verbatim>\<open>Simulation.results\<close>: the warnings it issues and the value it returns.
\<close>

definition results :: "('t, 'x, 's) Simulation \<Rightarrow> string list \<times> ('t, 'x, 's) Results option" where
  "results self =
    (if self_results self = None
     then ([''Run `Simulation.simulate` before requesting the results object''], self_results self)
     else ([], self_results self))"

section \<open>Fixtures\<close>

text \<open>The network of \<^verbatim>\<open>setup_basic\<close> in \<^verbatim>\<open>tests/conftest.py\<close>.\<close>

definition basic_V_r :: ndarray2 where
  "basic_V_r = np_array2 [[1, 0, 0], [0, 1, 0]]"

definition basic_V_p :: ndarray2 where
  "basic_V_p = np_array2 [[0, 1, 0], [0, 0, 1]]"

definition basic_X0 :: "int list" where
  "basic_X0 = [100, 0, 0]"

definition basic_k :: "real list" where
  "basic_k = [1, 1]"



text \<open>A product matrix of shape (3, 2), against the reactant matrix of shape (2, 3).\<close>

definition wrong_V_p :: ndarray2 where
  "wrong_V_p = np_array2 [[0, 1], [0, 0], [1, 0]]"

text \<open>The object \<^verbatim>\<open>Simulation(V_r, V_p, X0, k, chem_flag, volume)\<close> on this network,
  when the checks pass.\<close>

definition basic_sim :: "pyval \<Rightarrow> real \<Rightarrow> ('t, 'x, 's) Simulation" where
  "basic_sim chem_flag volume = init_fields basic_V_r basic_V_p basic_X0 basic_k chem_flag volume"

text \<open>An engine for examples: it returns its seed as the time, the initial state and
  the status 3, and counts its calls in the state outside the program.\<close>

definition toy_engine :: "(int, int list, int, nat) engine" where
  "toy_engine args g = ((a_seed args, a_init_state args, 3), Suc g)"

section \<open>Invariants of the replicate loop\<close>



text \<open>The loop starts with empty lists and an empty log.\<close>

definition loop_start :: "'g \<Rightarrow> ('t, 'x, 's, 'g) loop_state" where
  "loop_start g = \<lparr>l_tlist = [], l_xlist = [], l_status_list = [], l_world = g, l_calls = []\<rparr>"

section \<open>Construction and validation\<close>



lemma np_max_Inl: "np_max xs = Inl e \<longleftrightarrow> xs = [] \<and> e = ValueError zero_size_msg"
  by (cases xs) (auto simp: np_max_def)

lemma np_any_neg2_iff: "np_any_neg2 a \<longleftrightarrow> (\<exists>r\<in>set (rows a). \<exists>x\<in>set r. x < 0)"
  by (simp add: np_any_neg2_def list_ex_iff)

lemma np_any_neg_iff: "np_any_neg xs \<longleftrightarrow> (\<exists>x\<in>set xs. x < 0)"
  by (simp add: np_any_neg_def list_ex_iff)

lemma check_consistency_ValueError:
  "check_consistency self = Inl e \<Longrightarrow> \<exists>m. e = ValueError m"
  by (auto simp: check_consistency_def np_max_Inl split: if_splits sum.splits)

lemma Simulation_init_ValueError:
  "Simulation_init a b c d f v = Inl e \<Longrightarrow> \<exists>m. e = ValueError m"
  by (auto simp: Simulation_init_def Let_def dest: check_consistency_ValueError split: sum.splits)

lemma Simulation_init_not_Inr:
  fixes r :: "error + ('t, 'x, 's) Simulation"
  assumes "r = Simulation_init a b c d f v" and "\<And>s. r \<noteq> Inr s"
  shows "\<exists>m. r = Inl (ValueError m)"
  using assms
  by (cases "check_consistency (init_fields a b c d f v :: ('t, 'x, 's) Simulation)")
     (auto simp: Simulation_init_def init_fields_def Let_def dest: check_consistency_ValueError)

text \<open>
  C3: construction raises a \<^verbatim>\<open>ValueError\<close> whenever the two stoichiometry matrices differ
  in shape, or the number of rate constants differs from the number of rows of the
  reactant matrix. The constructor returns no object then, so nothing can be simulated.
  The rate-constant check is the sixth of the chain: every check before it raises a
  \<^verbatim>\<open>ValueError\<close> as well.
\<close>

theorem shape_mismatch_raises:
  "shape0 react \<noteq> shape0 prd \<or> shape1 react \<noteq> shape1 prd \<or> length k \<noteq> shape0 react \<Longrightarrow>
   \<exists>m. Simulation_init react prd X0 k flag vol = Inl (ValueError m)"
  by (rule Simulation_init_not_Inr [OF refl])
     (auto simp: Simulation_init_def init_fields_def Let_def check_consistency_def split: sum.splits if_splits)

text \<open>
  C4: construction raises a \<^verbatim>\<open>ValueError\<close> if any entry of the reactant matrix, the
  product matrix, the initial state or the rate constants is negative; and if all of them
  are non-negative, the error raised, if any, is none of the four negativity errors.
\<close>

theorem negative_entries_raise:
  "(let r = Simulation_init react prd X0 k flag vol in
   (((\<exists>row\<in>set (rows react). \<exists>x\<in>set row. x < 0) \<or> (\<exists>row\<in>set (rows prd). \<exists>x\<in>set row. x < 0) \<or>
     (\<exists>x\<in>set X0. x < 0) \<or> (\<exists>x\<in>set k. x < 0)) \<longrightarrow>
    (\<exists>m. r = Inl (ValueError m))) \<and>
   (((\<forall>row\<in>set (rows react). \<forall>x\<in>set row. 0 \<le> x) \<and> (\<forall>row\<in>set (rows prd). \<forall>x\<in>set row. 0 \<le> x) \<and>
     (\<forall>x\<in>set X0. 0 \<le> x) \<and> (\<forall>x\<in>set k. 0 \<le> x)) \<longrightarrow>
    r \<notin>
      {Inl (ValueError ''react_stoic cannot have negative elements.''),
       Inl (ValueError ''V_p cannot have negative elements.''),
       Inl (ValueError ''Initial numbers in X0 can't be negative.''),
       Inl (ValueError ''Rate constant(s) can't be negative.'')}))"
  unfolding Let_def
proof (intro conjI impI)
  assume neg: "(\<exists>row\<in>set (rows react). \<exists>x\<in>set row. x < 0) \<or> (\<exists>row\<in>set (rows prd). \<exists>x\<in>set row. x < 0) \<or>
     (\<exists>x\<in>set X0. x < 0) \<or> (\<exists>x\<in>set k. x < 0)"
  then have "np_any_neg2 react \<or> np_any_neg2 prd \<or> np_any_neg X0 \<or> np_any_neg k"
    by (simp add: np_any_neg2_iff np_any_neg_iff)
  then show "\<exists>m. Simulation_init react prd X0 k flag vol = Inl (ValueError m)"
    by (intro Simulation_init_not_Inr [OF refl])
       (auto simp: Simulation_init_def init_fields_def Let_def check_consistency_def split: sum.splits if_splits)
next
  assume "(\<forall>row\<in>set (rows react). \<forall>x\<in>set row. 0 \<le> x) \<and> (\<forall>row\<in>set (rows prd). \<forall>x\<in>set row. 0 \<le> x) \<and>
     (\<forall>x\<in>set X0. 0 \<le> x) \<and> (\<forall>x\<in>set k. 0 \<le> x)"
  then have nn: "\<not> np_any_neg2 react" "\<not> np_any_neg2 prd" "\<not> np_any_neg X0" "\<not> np_any_neg k"
    by (auto simp: np_any_neg2_iff np_any_neg_iff not_less)
  show "Simulation_init react prd X0 k flag vol \<notin>
      {Inl (ValueError ''react_stoic cannot have negative elements.''),
       Inl (ValueError ''V_p cannot have negative elements.''),
       Inl (ValueError ''Initial numbers in X0 can't be negative.''),
       Inl (ValueError ''Rate constant(s) can't be negative.'')}"
    using nn
    by (auto simp: Simulation_init_def init_fields_def Let_def check_consistency_def np_max_Inl zero_size_msg_def
             split: sum.splits if_splits)
qed








text \<open>
  C10: the integer 1 is not a boolean, and construction accepts it as \<^verbatim>\<open>chem_flag\<close>:
  \<^verbatim>\<open>1 in (True, False)\<close> holds, since \<^verbatim>\<open>1 == True\<close>.
\<close>

theorem chem_flag_one_accepted:
  "Simulation_init basic_V_r basic_V_p basic_X0 basic_k (PyInt 1) 1 = Inr (basic_sim (PyInt 1) 1)"
  by (simp add: Simulation_init_def basic_sim_def init_fields_def Let_def check_consistency_def
        basic_V_r_def basic_V_p_def basic_X0_def basic_k_def np_array2_def
        np_sum_axis1_def wrap_int64_def np_any_neg2_def np_any_neg_def np_max_def py_in_def py_eq_def)

text \<open>The example of the specification, shapes (2, 3) and (3, 2); and one rate constant for
  two reactions.\<close>

theorem shape_mismatch_raises_witness:
  "shape0 basic_V_r \<noteq> shape0 wrong_V_p \<and>
   (\<exists>m. Simulation_init basic_V_r wrong_V_p basic_X0 basic_k (PyBool False) 1 = Inl (ValueError m)) \<and>
   length [1 :: real] \<noteq> shape0 basic_V_r \<and>
   (\<exists>m. Simulation_init basic_V_r basic_V_p basic_X0 [1] (PyBool False) 1 = Inl (ValueError m))"
proof -
  have a: "shape0 basic_V_r \<noteq> shape0 wrong_V_p"
    by (simp add: basic_V_r_def wrong_V_p_def np_array2_def)
  have b: "length [1 :: real] \<noteq> shape0 basic_V_r"
    by (simp add: basic_V_r_def np_array2_def)
  show ?thesis
    using a b shape_mismatch_raises [of basic_V_r wrong_V_p basic_k basic_X0 "PyBool False" 1]
      shape_mismatch_raises [of basic_V_r basic_V_p "[1]" basic_X0 "PyBool False" 1]
    by blast
qed

text \<open>An initial state with a negative count, and the network of the tests.\<close>

theorem negative_entries_raise_witness:
  "(-1 :: int) < 0 \<and>
   (\<exists>m. Simulation_init basic_V_r basic_V_p [-1, 0, 0] basic_k (PyBool False) 1 = Inl (ValueError m)) \<and>
   Simulation_init basic_V_r basic_V_p basic_X0 basic_k (PyBool False) 1 \<notin>
      {Inl (ValueError ''react_stoic cannot have negative elements.''),
       Inl (ValueError ''V_p cannot have negative elements.''),
       Inl (ValueError ''Initial numbers in X0 can't be negative.''),
       Inl (ValueError ''Rate constant(s) can't be negative.'')}"
proof -
  have nn: "(\<forall>row\<in>set (rows basic_V_r). \<forall>x\<in>set row. 0 \<le> x) \<and>
            (\<forall>row\<in>set (rows basic_V_p). \<forall>x\<in>set row. 0 \<le> x) \<and>
            (\<forall>x\<in>set basic_X0. 0 \<le> x) \<and> (\<forall>x\<in>set basic_k. 0 \<le> x)"
    by (simp add: basic_V_r_def basic_V_p_def basic_X0_def basic_k_def np_array2_def)
  have neg: "(\<exists>row\<in>set (rows basic_V_r). \<exists>x\<in>set row. x < 0) \<or>
             (\<exists>row\<in>set (rows basic_V_p). \<exists>x\<in>set row. x < 0) \<or>
             (\<exists>x\<in>set [-1, 0, 0 :: int]. x < 0) \<or> (\<exists>x\<in>set basic_k. x < 0)"
    by simp
  note a = negative_entries_raise [of basic_V_r basic_V_p "[-1, 0, 0]" basic_k "PyBool False" 1,
      unfolded Let_def, THEN conjunct1, THEN mp, OF neg]
  note b = negative_entries_raise [of basic_V_r basic_V_p basic_X0 basic_k "PyBool False" 1,
      unfolded Let_def, THEN conjunct2, THEN mp, OF nn]
  show ?thesis
    by (intro conjI a b) simp
qed


section \<open>Replicates, seeds and stored results\<close>

lemma replicates_in_range:
  "\<forall>i\<in>set idxs. i < length sd \<Longrightarrow> fst (replicates eng self mt mi vol sd idxs st) = None"
  by (induction idxs arbitrary: st) (auto split: prod.splits)

lemma replicates_calls_args:
  "\<forall>i\<in>set idxs. i < length sd \<Longrightarrow>
   map fst (l_calls (snd (replicates eng self mt mi vol sd idxs st))) =
     map fst (l_calls st) @ map (\<lambda>i. call_args self mt mi vol (sd ! i)) idxs"
  by (induction idxs arbitrary: st) (auto split: prod.splits)



lemma resolve_seed_length: "resolve_seed seed n_rep = Inr sd \<Longrightarrow> length sd = nat n_rep"
  by (auto simp: resolve_seed_def py_range_def split: option.splits if_splits)

lemma resolve_seed_ValueError: "resolve_seed seed n_rep = Inl e \<Longrightarrow> \<exists>m. e = ValueError m"
  by (auto simp: resolve_seed_def split: option.splits if_splits)

lemma py_range_in_range: "length sd = nat n_rep \<Longrightarrow> \<forall>i\<in>set (py_range n_rep). i < length sd"
  by (simp add: py_range_def)

lemma simulate_ok:
  assumes "resolve_seed seed n_rep = Inr sd"
  shows "simulate eng self mt mi vol seed n_rep ''direct_naive'' g =
    (let st = snd (replicates eng self mt mi vol sd (py_range n_rep) (loop_start g)) in
      \<lparr>raised = None,
       self_after = self\<lparr>self_results :=
          Some \<lparr>t_list = l_tlist st, x_list = l_xlist st, status_list = l_status_list st,
                res_algorithm = ''direct_naive'', res_seed = sd\<rparr>\<rparr>,
       world_after = l_world st,
       engine_calls = l_calls st\<rparr>)"
proof -
  have "fst (replicates eng self mt mi vol sd (py_range n_rep) (loop_start g)) = None"
    using assms by (intro replicates_in_range py_range_in_range resolve_seed_length)
  then show ?thesis
    using assms by (auto simp: simulate_def loop_start_def Let_def split: prod.splits)
qed

text \<open>
  C9: for every algorithm tag other than \<^verbatim>\<open>"direct_naive"\<close>, \<^verbatim>\<open>simulate\<close> raises a
  \<^verbatim>\<open>ValueError\<close>, calls the engine not once, and leaves the object, its stored results
  included, as it was. (When a supplied seed list has the wrong length, the
  \<^verbatim>\<open>ValueError\<close> is that of the seed check, which comes first.)
\<close>

theorem unsupported_algorithm_raises:
  "algorithm \<noteq> ''direct_naive'' \<Longrightarrow>
   \<exists>m. simulate eng self mt mi vol seed n_rep algorithm g =
     \<lparr>raised = Some (ValueError m), self_after = self, world_after = g, engine_calls = []\<rparr>"
  by (cases "resolve_seed seed n_rep") (auto simp: simulate_def dest: resolve_seed_ValueError)


text \<open>
  C5: without a seed list, the seeds the engine is called with are \<open>0, 1, ..., n_rep - 1\<close>
  in this order, and they are the seed list stored with the results. With a seed list
  whose length is not \<open>n_rep\<close>, \<^verbatim>\<open>simulate\<close> raises a \<^verbatim>\<open>ValueError\<close>, the engine is not
  called, and the object is unchanged.
\<close>

theorem default_seeds_and_length_check:
  "(let out = simulate eng self mt mi vol None n_rep ''direct_naive'' g in
      raised out = None \<and>
      map (\<lambda>c. a_seed (fst c)) (engine_calls out) = map int [0..<nat n_rep] \<and>
      map_option res_seed (self_results (self_after out)) = Some (map int [0..<nat n_rep])) \<and>
   (int (length sd) \<noteq> n_rep \<longrightarrow>
      simulate eng self mt mi vol (Some sd) n_rep algorithm g =
        \<lparr>raised = Some (ValueError ''Seed should be as long as n_rep''),
         self_after = self, world_after = g, engine_calls = []\<rparr>)"
proof (intro conjI impI)
  have rs: "resolve_seed None n_rep = Inr (map int [0..<nat n_rep])"
    by (simp add: resolve_seed_def py_range_def)
  define st where "st = snd (replicates eng self mt mi vol (map int [0..<nat n_rep]) (py_range n_rep) (loop_start g))"
  define sds where "sds = map int [0..<nat n_rep]"
  have len: "length sds = nat n_rep"
    by (simp add: sds_def)
  have args: "map fst (l_calls st) = map (\<lambda>i. call_args self mt mi vol (sds ! i)) (py_range n_rep)"
    unfolding st_def sds_def
    using replicates_calls_args [of "py_range n_rep" "map int [0..<nat n_rep]" eng self mt mi vol "loop_start g"]
    by (simp add: py_range_def loop_start_def)
  have "map (\<lambda>c. a_seed (fst c)) (l_calls st) = map a_seed (map fst (l_calls st))"
    by (simp add: comp_def)
  also have "\<dots> = map (\<lambda>i. sds ! i) [0..<length sds]"
    by (simp only: args py_range_def len map_map comp_def call_args_def engine_args.simps)
  also have "\<dots> = sds"
    by (rule map_nth)
  finally have seeds: "map (\<lambda>c. a_seed (fst c)) (l_calls st) = map int [0..<nat n_rep]"
    by (simp add: sds_def)
  show "let out = simulate eng self mt mi vol None n_rep ''direct_naive'' g in
      raised out = None \<and>
      map (\<lambda>c. a_seed (fst c)) (engine_calls out) = map int [0..<nat n_rep] \<and>
      map_option res_seed (self_results (self_after out)) = Some (map int [0..<nat n_rep])"
    using seeds by (simp add: simulate_ok [OF rs] Let_def st_def [symmetric])
next
  assume "int (length sd) \<noteq> n_rep"
  then show "simulate eng self mt mi vol (Some sd) n_rep algorithm g =
        \<lparr>raised = Some (ValueError ''Seed should be as long as n_rep''),
         self_after = self, world_after = g, engine_calls = []\<rparr>"
    by (auto simp: simulate_def resolve_seed_def)
qed

lemma simulate_raised_None:
  "raised (simulate eng self mt mi vol seed n_rep algorithm g) = None \<Longrightarrow>
   \<exists>r. self_results (self_after (simulate eng self mt mi vol seed n_rep algorithm g)) = Some r"
  by (auto simp: simulate_def split: sum.splits if_splits prod.splits option.splits)

lemma simulate_raised_Some:
  "raised (simulate eng self mt mi vol seed n_rep algorithm g) \<noteq> None \<Longrightarrow>
   self_after (simulate eng self mt mi vol seed n_rep algorithm g) = self"
  by (auto simp: simulate_def split: sum.splits if_splits prod.splits option.splits)

text \<open>
  C7: the accessor \<^verbatim>\<open>results\<close> never fails. While nothing is stored it issues one warning
  and returns \<^verbatim>\<open>None\<close>; otherwise it returns the stored results with no warning. Nothing
  is stored in a new object; a call of \<^verbatim>\<open>simulate\<close> that returns stores results, and one
  that raises leaves the accessor as it was.
\<close>

theorem results_warns_before_run:
  "(self_results self = None \<longrightarrow>
      results self = ([''Run `Simulation.simulate` before requesting the results object''], None)) \<and>
   (\<forall>r. self_results self = Some r \<longrightarrow> results self = ([], Some r)) \<and>
   (\<forall>s. Simulation_init react prd X0 k flag vol = Inr s \<longrightarrow>
      results s = ([''Run `Simulation.simulate` before requesting the results object''], None)) \<and>
   (let out = simulate eng self mt mi vol seed n_rep algorithm g in
      (raised out = None \<longrightarrow> (\<exists>r. results (self_after out) = ([], Some r))) \<and>
      (raised out \<noteq> None \<longrightarrow> results (self_after out) = results self))"
proof (intro conjI allI impI)
  assume "self_results self = None"
  then show "results self = ([''Run `Simulation.simulate` before requesting the results object''], None)"
    by (simp add: results_def)
next
  fix r assume "self_results self = Some r"
  then show "results self = ([], Some r)"
    by (simp add: results_def)
next
  fix s :: "('d, 'e, 'f) Simulation"
  assume "Simulation_init react prd X0 k flag vol = Inr s"
  then have "self_results s = None"
    by (auto simp: Simulation_init_def init_fields_def Let_def split: sum.splits)
  then show "results s = ([''Run `Simulation.simulate` before requesting the results object''], None)"
    by (simp add: results_def)
next
  show "let out = simulate eng self mt mi vol seed n_rep algorithm g in
      (raised out = None \<longrightarrow> (\<exists>r. results (self_after out) = ([], Some r))) \<and>
      (raised out \<noteq> None \<longrightarrow> results (self_after out) = results self)"
    unfolding Let_def
  proof (intro conjI impI)
    assume "raised (simulate eng self mt mi vol seed n_rep algorithm g) = None"
    from simulate_raised_None [OF this] obtain r where
      "self_results (self_after (simulate eng self mt mi vol seed n_rep algorithm g)) = Some r"
      by blast
    then show "\<exists>r. results (self_after (simulate eng self mt mi vol seed n_rep algorithm g)) = ([], Some r)"
      by (simp add: results_def)
  next
    assume "raised (simulate eng self mt mi vol seed n_rep algorithm g) \<noteq> None"
    then show "results (self_after (simulate eng self mt mi vol seed n_rep algorithm g)) = results self"
      by (simp add: simulate_raised_Some)
  qed
qed

text \<open>
  C1: an object built on the network of the tests with the volume 7, simulated with the
  defaults of \<^verbatim>\<open>simulate\<close> (\<^verbatim>\<open>max_t = 10.0\<close>, \<^verbatim>\<open>max_iter = 1000\<close>, \<^verbatim>\<open>volume = 1.0\<close>, no seed,
  one replicate): the object holds the volume 7, and the engine is called with the
  volume 1, the parameter of \<^verbatim>\<open>simulate\<close>.
\<close>

theorem constructor_volume_ignored:
  "Simulation_init basic_V_r basic_V_p basic_X0 basic_k (PyBool False) 7 = Inr (basic_sim (PyBool False) 7) \<and>
   self_volume (basic_sim (PyBool False) 7) = 7 \<and>
   map (\<lambda>c. a_volume (fst c))
     (engine_calls (simulate eng (basic_sim (PyBool False) 7) 10 1000 1 None 1 ''direct_naive'' g)) = [1]"
proof (intro conjI)
  show "Simulation_init basic_V_r basic_V_p basic_X0 basic_k (PyBool False) 7 = Inr (basic_sim (PyBool False) 7)"
    by (simp add: Simulation_init_def basic_sim_def init_fields_def Let_def check_consistency_def
        basic_V_r_def basic_V_p_def basic_X0_def basic_k_def np_array2_def
        np_sum_axis1_def wrap_int64_def np_any_neg2_def np_any_neg_def np_max_def py_in_def py_eq_def)
  show "self_volume (basic_sim (PyBool False) 7) = 7"
    by (simp add: basic_sim_def init_fields_def)
  have rs: "resolve_seed None 1 = Inr [0]"
    by (simp add: resolve_seed_def py_range_def)
  show "map (\<lambda>c. a_volume (fst c))
     (engine_calls (simulate eng (basic_sim (PyBool False) 7) 10 1000 1 None 1 ''direct_naive'' g)) = [1]"
    by (simp add: simulate_ok [OF rs] Let_def py_range_def loop_start_def call_args_def split: prod.splits)
qed

section \<open>Examples for the theorems on replicates\<close>

text \<open>The tag \<^verbatim>\<open>"tau_leaping"\<close>, on the network of the tests.\<close>

theorem unsupported_algorithm_raises_witness:
  "''tau_leaping'' \<noteq> ''direct_naive'' \<and>
   (\<exists>m. simulate toy_engine (basic_sim (PyBool False) 1) 10 1000 1 None 1 ''tau_leaping'' 0 =
     \<lparr>raised = Some (ValueError m), self_after = basic_sim (PyBool False) 1, world_after = 0,
      engine_calls = []\<rparr>)"
proof -
  have a: "''tau_leaping'' \<noteq> ''direct_naive''"
    by simp
  show ?thesis
    using a unsupported_algorithm_raises [OF a, of toy_engine "basic_sim (PyBool False) 1" 10 1000 1 None 1 0]
    by blast
qed


text \<open>Two seeds for three replicates; and three replicates with no seed list.\<close>

theorem default_seeds_and_length_check_witness:
  "int (length [1, 2 :: int]) \<noteq> 3 \<and>
   simulate toy_engine (basic_sim (PyBool False) 1) 10 1000 1 (Some [1, 2]) 3 ''direct_naive'' 0 =
     \<lparr>raised = Some (ValueError ''Seed should be as long as n_rep''),
      self_after = basic_sim (PyBool False) 1, world_after = 0, engine_calls = []\<rparr> \<and>
   map (\<lambda>c. a_seed (fst c))
     (engine_calls (simulate toy_engine (basic_sim (PyBool False) 1) 10 1000 1 None 3 ''direct_naive'' 0)) =
     map int [0..<nat 3]"
proof -
  have a: "int (length [1, 2 :: int]) \<noteq> 3"
    by simp
  note t = default_seeds_and_length_check [where eng = toy_engine and self = "basic_sim (PyBool False) 1"
      and mt = 10 and mi = 1000 and vol = 1 and n_rep = 3 and g = 0 and sd = "[1, 2]"
      and algorithm = "''direct_naive''", unfolded Let_def]
  show ?thesis
    using a t by blast
qed

text \<open>A new object on the network of the tests, the same object after one replicate, and
  after a call with an unsupported tag.\<close>

theorem results_warns_before_run_witness:
  "Simulation_init basic_V_r basic_V_p basic_X0 basic_k (PyBool False) 1 =
     Inr (basic_sim (PyBool False) 1 :: (int, int list, int) Simulation) \<and>
   results (basic_sim (PyBool False) 1 :: (int, int list, int) Simulation) =
     ([''Run `Simulation.simulate` before requesting the results object''], None) \<and>
   raised (simulate toy_engine (basic_sim (PyBool False) 1) 10 1000 1 None 1 ''direct_naive'' 0) = None \<and>
   (\<exists>r. results (self_after (simulate toy_engine (basic_sim (PyBool False) 1) 10 1000 1 None 1 ''direct_naive'' 0)) =
      ([], Some r)) \<and>
   raised (simulate toy_engine (basic_sim (PyBool False) 1) 10 1000 1 None 1 ''tau_leaping'' 0) \<noteq> None \<and>
   results (self_after (simulate toy_engine (basic_sim (PyBool False) 1) 10 1000 1 None 1 ''tau_leaping'' 0)) =
     results (basic_sim (PyBool False) 1)"
proof -
  have i: "Simulation_init basic_V_r basic_V_p basic_X0 basic_k (PyBool False) 1 =
     Inr (basic_sim (PyBool False) 1 :: (int, int list, int) Simulation)"
    by (simp add: Simulation_init_def basic_sim_def init_fields_def Let_def check_consistency_def
        basic_V_r_def basic_V_p_def basic_X0_def basic_k_def np_array2_def
        np_sum_axis1_def wrap_int64_def np_any_neg2_def np_any_neg_def np_max_def py_in_def py_eq_def)
  have b: "raised (simulate toy_engine (basic_sim (PyBool False) 1) 10 1000 1 None 1 ''direct_naive'' 0) = None"
    by (simp add: simulate_ok [of None 1 "[0]"] resolve_seed_def py_range_def Let_def)
  have c: "raised (simulate toy_engine (basic_sim (PyBool False) 1) 10 1000 1 None 1 ''tau_leaping'' 0) \<noteq> None"
    by (simp add: simulate_def resolve_seed_def)
  note t = results_warns_before_run [where self = "basic_sim (PyBool False) 1" and eng = toy_engine
      and mt = 10 and mi = 1000 and vol = 1 and seed = None and n_rep = 1
      and algorithm = "''direct_naive''" and g = 0
      and react = basic_V_r and prd = basic_V_p and ?X0.0 = basic_X0 and k = basic_k
      and flag = "PyBool False", unfolded Let_def]
  note u = results_warns_before_run [where self = "basic_sim (PyBool False) 1" and eng = toy_engine
      and mt = 10 and mi = 1000 and vol = 1 and seed = None and n_rep = 1
      and algorithm = "''tau_leaping''" and g = 0, unfolded Let_def]
  have r0: "results (basic_sim (PyBool False) 1 :: (int, int list, int) Simulation) =
     ([''Run `Simulation.simulate` before requesting the results object''], None)"
    using t i by blast
  have r1: "\<exists>r. results (self_after (simulate toy_engine (basic_sim (PyBool False) 1) 10 1000 1 None 1 ''direct_naive'' 0)) =
      ([], Some r)"
    using t b by blast
  have r2: "results (self_after (simulate toy_engine (basic_sim (PyBool False) 1) 10 1000 1 None 1 ''tau_leaping'' 0)) =
     results (basic_sim (PyBool False) 1)"
    using u c by blast
  show ?thesis
    using i r0 b r1 c r2 by blast
qed

end
